theory Spec2Isabelle
  imports Main "HOL-Library.Word" "HOL-Library.Signed_Division"
    "HOL-Library.Char_ord" "HOL-Library.List_Lexorder"
begin

section \<open>Metric records and time series\<close>

text \<open>
  The Prometheus remote-write output of
  \<^verbatim>\<open>plugins/outputs/prometheus_remote_write/prometheus_remote_write.go\<close>.
  Go's \<^verbatim>\<open>int64\<close> and \<^verbatim>\<open>uint64\<close> are 64-bit words, read signed
  (\<open>sint\<close>) or unsigned (\<open>unat\<close>). A \<^verbatim>\<open>float64\<close> is kept as its IEEE-754
  binary64 bit pattern, so that no real arithmetic enters the model: the encoder only
  copies floats and converts integers to them.
\<close>

type_synonym int64 = "64 word"
type_synonym uint64 = "64 word"

datatype float64 = Float64 (bits: "64 word")

text \<open>\<^verbatim>\<open>telegraf.ValueType\<close>, the metric kind returned by \<^verbatim>\<open>metric.Type()\<close>.\<close>

datatype ValueType = Counter | Gauge | Untyped | Summary | Histogram

text \<open>
  The dynamic type of \<^verbatim>\<open>field.Value\<close> (an \<^verbatim>\<open>interface{}\<close>): the type switch of
  \<^verbatim>\<open>Write\<close> tells three numeric types from everything else. \<open>Other\<close> stands for a
  value of any further type; the switch does not look into it.
\<close>

datatype FieldValue =
    Int64 int64
  | Uint64 uint64
  | Float float64
  | String string
  | Bool bool
  | Other

record Tag =
  Tag_Key :: string
  Tag_Value :: string

record Field =
  Field_Key :: string
  Field_Value :: FieldValue

text \<open>
  What \<^verbatim>\<open>Write\<close> reads of a \<^verbatim>\<open>telegraf.Metric\<close>: \<^verbatim>\<open>Name()\<close>, \<^verbatim>\<open>TagList()\<close>,
  \<^verbatim>\<open>FieldList()\<close>, \<^verbatim>\<open>Type()\<close> and, of \<^verbatim>\<open>Time()\<close>, only the value of
  \<^verbatim>\<open>Time().UnixNano()\<close>: nanoseconds since the Unix epoch as an \<^verbatim>\<open>int64\<close>.
\<close>

record Metric =
  Name :: string
  TagList :: "Tag list"
  FieldList :: "Field list"
  UnixNano :: int64
  Type :: ValueType

text \<open>\<^verbatim>\<open>prompb.Label\<close>, \<^verbatim>\<open>prompb.Sample\<close> and \<^verbatim>\<open>prompb.TimeSeries\<close>.\<close>

record Label =
  Label_Name :: string
  Label_Value :: string

record Sample =
  Timestamp :: int64
  Sample_Value :: float64

record TimeSeries =
  Labels :: "Label list"
  Samples :: "Sample list"

section \<open>Go arithmetic used by the encoder\<close>

text \<open>
  Go's \<^verbatim>\<open>/\<close> on \<^verbatim>\<open>int64\<close> truncates towards zero (and wraps on
  \<^verbatim>\<open>MinInt64 / -1\<close>).
\<close>

definition int64_div :: "int64 \<Rightarrow> int64 \<Rightarrow> int64" where
  "int64_div a b = word_of_int (sint a sdiv sint b)"

text \<open>
  The conversions \<^verbatim>\<open>float64(fv)\<close> of an \<^verbatim>\<open>int64\<close> and of a \<^verbatim>\<open>uint64\<close>: the
  nearest binary64 value, ties to the even mantissa. \<open>bit_len n\<close> is the number of binary
  digits of \<open>n\<close>; \<open>float64_bits_of_nat n\<close> is the bit pattern (biased exponent and 52
  mantissa bits) of the float nearest to \<open>n\<close>.
\<close>

fun bit_len :: "nat \<Rightarrow> nat" where
  "bit_len n = (if n = 0 then 0 else Suc (bit_len (n div 2)))"

declare bit_len.simps [simp del]

definition float64_bits_of_nat :: "nat \<Rightarrow> nat" where
  "float64_bits_of_nat n =
     (if n = 0 then 0
      else let e = bit_len n - 1 in
        if e \<le> 52 then (e + 1023) * 2 ^ 52 + (n * 2 ^ (52 - e) - 2 ^ 52)
        else let s = e - 52;
                 q = n div 2 ^ s;
                 r = n mod 2 ^ s;
                 h = 2 ^ (s - 1);
                 q' = (if h < r \<or> (r = h \<and> odd q) then q + 1 else q)
             in (e + 1023) * 2 ^ 52 + (q' - 2 ^ 52))"

definition float64_of_int64 :: "int64 \<Rightarrow> float64" where
  "float64_of_int64 v =
     (if sint v < 0
      then Float64 (2 ^ 63 + word_of_nat (float64_bits_of_nat (nat (- sint v))))
      else Float64 (word_of_nat (float64_bits_of_nat (nat (sint v)))))"

definition float64_of_uint64 :: "uint64 \<Rightarrow> float64" where
  "float64_of_uint64 v = Float64 (word_of_nat (float64_bits_of_nat (unat v)))"

text \<open>
  Reading a \<^verbatim>\<open>float64\<close> back, independently of the conversions above: the value of a
  binary64 bit pattern when that value is an integer, \<open>None\<close> otherwise (a fraction, a
  subnormal, an infinity or a NaN). With \<open>E\<close> the 11 exponent bits and \<open>m\<close> the 52
  mantissa bits, a normal float is \<open>(2^52 + m) * 2^(E - 1075)\<close>; the top bit is the sign.
\<close>

definition float64_nat_of_bits :: "nat \<Rightarrow> nat option" where
  "float64_nat_of_bits b =
     (let E = b div 2 ^ 52; M = 2 ^ 52 + b mod 2 ^ 52
      in if b = 0 then Some 0
         else if E = 0 \<or> 2047 \<le> E then None
         else if 1075 \<le> E then Some (M * 2 ^ (E - 1075))
         else if 2 ^ (1075 - E) dvd M then Some (M div 2 ^ (1075 - E))
         else None)"

definition float64_to_int :: "float64 \<Rightarrow> int option" where
  "float64_to_int f =
     (let u = unat (bits f)
      in if u < 2 ^ 63 then map_option int (float64_nat_of_bits u)
         else map_option (\<lambda>r. - int r) (float64_nat_of_bits (u - 2 ^ 63)))"


section \<open>Label names\<close>

text \<open>
  Modelled from the spec: \<^verbatim>\<open>prometheus_client.Sanitize\<close> is called by \<^verbatim>\<open>Write\<close> but
  its package is not among the sources. The specification says of it: the key is
  sanitized to the label-name grammar \<^verbatim>\<open>[a-zA-Z_][a-zA-Z0-9_]*\<close>, invalid characters
  replaced by \<^verbatim>\<open>_\<close>. The encoder below takes the sanitizer as an argument \<open>san\<close>;
  the general theorems hold for every sanitizer, and the examples run with this one.
\<close>

definition is_label_start :: "char \<Rightarrow> bool" where
  "is_label_start c =
     ((CHR ''a'' \<le> c \<and> c \<le> CHR ''z'') \<or> (CHR ''A'' \<le> c \<and> c \<le> CHR ''Z'')
       \<or> c = CHR ''_'')"

definition is_label_char :: "char \<Rightarrow> bool" where
  "is_label_char c = (is_label_start c \<or> (CHR ''0'' \<le> c \<and> c \<le> CHR ''9''))"

fun Sanitize :: "string \<Rightarrow> string" where
  "Sanitize [] = []"
| "Sanitize (c # cs) =
     (if is_label_start c then c else CHR ''_'')
       # map (\<lambda>d. if is_label_char d then d else CHR ''_'') cs"

text \<open>
  \<^verbatim>\<open>strings.NewReplacer(".", "_", "-", "_").Replace\<close>: every \<^verbatim>\<open>.\<close> and every
  \<^verbatim>\<open>-\<close> becomes \<^verbatim>\<open>_\<close>.
\<close>

definition renameMetrics :: "string \<Rightarrow> string" where
  "renameMetrics s = map (\<lambda>c. if c = CHR ''.'' \<or> c = CHR ''-'' then CHR ''_'' else c) s"

section \<open>The encoding loop of \<^verbatim>\<open>Write\<close>\<close>

text \<open>
  The labels built from the tags of one metric, in the order of \<^verbatim>\<open>TagList()\<close>.
\<close>

definition commonLabels :: "(string \<Rightarrow> string) \<Rightarrow> Metric \<Rightarrow> Label list" where
  "commonLabels san metric =
     map (\<lambda>tag. \<lparr>Label_Name = san (Tag_Key tag), Label_Value = Tag_Value tag\<rparr>)
       (TagList metric)"

text \<open>
  The type switch on \<^verbatim>\<open>field.Value\<close>: \<open>None\<close> is the \<^verbatim>\<open>default: continue\<close>
  branch.
\<close>

definition float_value :: "FieldValue \<Rightarrow> float64 option" where
  "float_value fv =
     (case fv of
        Int64 v \<Rightarrow> Some (float64_of_int64 v)
      | Uint64 v \<Rightarrow> Some (float64_of_uint64 v)
      | Float v \<Rightarrow> Some v
      | _ \<Rightarrow> None)"

text \<open>
  The labels of one field: the common labels, then \<^verbatim>\<open>__name__\<close>, then
  \<^verbatim>\<open>sort.Sort(byName(labels))\<close>, which orders by \<^verbatim>\<open>Name\<close> with Go's bytewise string
  comparison (the lexicographic order of \<open>char list\<close>). \<^verbatim>\<open>sort.Sort\<close> promises a sorted
  permutation and no more; the order it leaves between labels of equal name is the one
  of an insertion sort here, and no theorem below depends on it.
\<close>

definition field_labels :: "Label list \<Rightarrow> Metric \<Rightarrow> Field \<Rightarrow> Label list" where
  "field_labels common metric field =
     sort_key Label_Name
       (common @ [\<lparr>Label_Name = ''__name__'',
                   Label_Value = renameMetrics (Name metric) @ ''_'' @ Field_Key field\<rparr>])"

text \<open>
  The inner loop over \<^verbatim>\<open>metric.FieldList()\<close>; \<open>ts\<close> is \<^verbatim>\<open>req.Timeseries\<close>. Both
  \<^verbatim>\<open>continue\<close> statements go on with the next field and leave \<open>ts\<close> as it is.
\<close>

fun fields_loop ::
  "Label list \<Rightarrow> Metric \<Rightarrow> Field list \<Rightarrow> TimeSeries list \<Rightarrow> TimeSeries list" where
  "fields_loop common metric [] ts = ts"
| "fields_loop common metric (field # rest) ts =
     (let labels = field_labels common metric field
      in if Type metric = Histogram \<or> Type metric = Summary
         then fields_loop common metric rest ts
         else (case float_value (Field_Value field) of
                 None \<Rightarrow> fields_loop common metric rest ts
               | Some v \<Rightarrow>
                   fields_loop common metric rest
                     (ts @ [\<lparr>Labels = labels,
                             Samples = [\<lparr>Timestamp = int64_div (UnixNano metric) 1000000,
                                         Sample_Value = v\<rparr>]\<rparr>])))"

text \<open>The outer loop over the batch.\<close>

fun metrics_loop ::
  "(string \<Rightarrow> string) \<Rightarrow> Metric list \<Rightarrow> TimeSeries list \<Rightarrow> TimeSeries list" where
  "metrics_loop san [] ts = ts"
| "metrics_loop san (metric # metrics) ts =
     metrics_loop san metrics
       (fields_loop (commonLabels san metric) metric (FieldList metric) ts)"

text \<open>\<^verbatim>\<open>req.Timeseries\<close> after the loop, starting from the empty request.\<close>

definition encode :: "(string \<Rightarrow> string) \<Rightarrow> Metric list \<Rightarrow> TimeSeries list" where
  "encode san metrics = metrics_loop san metrics []"

text \<open>
  The series of one field with a numeric value \<open>v\<close>, and the number of labels named
  \<^verbatim>\<open>__name__\<close> in a label list.
\<close>

definition series_of :: "(string \<Rightarrow> string) \<Rightarrow> Metric \<Rightarrow> Field \<Rightarrow> float64 \<Rightarrow> TimeSeries" where
  "series_of san metric field v =
     \<lparr>Labels = field_labels (commonLabels san metric) metric field,
      Samples = [\<lparr>Timestamp = int64_div (UnixNano metric) 1000000, Sample_Value = v\<rparr>]\<rparr>"

definition name_count :: "Label list \<Rightarrow> nat" where
  "name_count ls = length (filter (\<lambda>l. Label_Name l = ''__name__'') ls)"


text \<open>
  A record has clean tags when its sanitized tag keys are pairwise distinct and none of
  them is \<^verbatim>\<open>__name__\<close>.
\<close>

definition clean_tags :: "(string \<Rightarrow> string) \<Rightarrow> Metric \<Rightarrow> bool" where
  "clean_tags san metric =
     (distinct (map (\<lambda>tag. san (Tag_Key tag)) (TagList metric))
      \<and> ''__name__'' \<notin> set (map (\<lambda>tag. san (Tag_Key tag)) (TagList metric)))"

section \<open>The shipper: pool of clients, cursor, refresh deadline\<close>

text \<open>
  Errors are values. \<open>IndexOutOfRange\<close> is the run-time panic of
  \<^verbatim>\<open>p.clients[p.nextIndex]\<close>; the others are the errors \<^verbatim>\<open>Write\<close> and
  \<^verbatim>\<open>resolveDns\<close> return, named after the call they come from.
  \<open>HTTPStatusError\<close> carries \<^verbatim>\<open>resp.Status\<close> and \<^verbatim>\<open>resp.StatusCode\<close>, the two
  values formatted into the message of \<^verbatim>\<open>fmt.Errorf\<close>.
\<close>

datatype error =
    TLSConfigError
  | URLParseError
  | LookupError
  | MarshalError
  | NewRequestError
  | TransportError
  | HTTPStatusError string int
  | IndexOutOfRange

type_synonym bytes = "8 word list"
type_synonym IP = "8 word list"

text \<open>
  An \<^verbatim>\<open>http.Client\<close> as \<^verbatim>\<open>resolveDns\<close> builds it: a fresh transport holding the
  TLS configuration. The type of TLS configurations is a parameter.
\<close>

record 'tls Client =
  TLSClientConfig :: 'tls

text \<open>
  The struct \<^verbatim>\<open>PrometheusRemoteWrite\<close>. Instants (\<^verbatim>\<open>time.Time\<close>) are integers,
  nanoseconds on one time line; \<^verbatim>\<open>nextIndex\<close> is a Go \<^verbatim>\<open>int\<close>, which stays
  between 0 and the pool size in every run from a fresh instance, far from overflow.
\<close>

record 'tls PrometheusRemoteWrite =
  URL :: string
  BasicUsername :: string
  BasicPassword :: string
  clients :: "'tls Client list"
  nextIndex :: int
  nextResolve :: int

record Request =
  Method :: string
  Request_URL :: string
  Body :: bytes
  Header :: "(string \<times> string) list"
  BasicAuth :: "(string \<times> string) option"

record Response =
  Status :: string
  StatusCode :: int

text \<open>
  What one call sees of the world outside the plugin: the outcome of each library call
  it makes, in the order of the source.
  \<^item> \<open>TLSConfig\<close>: \<^verbatim>\<open>p.ClientConfig.TLSConfig()\<close>;
  \<^item> \<open>url_Parse\<close>: \<^verbatim>\<open>url.Parse\<close> followed by \<^verbatim>\<open>Hostname()\<close>;
  \<^item> \<open>LookupIP\<close>: \<^verbatim>\<open>net.LookupIP\<close>;
  \<^item> \<open>Now_resolve\<close>: \<^verbatim>\<open>time.Now()\<close> inside \<^verbatim>\<open>resolveDns\<close>;
  \<^item> \<open>Intn\<close>: \<^verbatim>\<open>rand.Intn\<close>, which returns a number from 0 up to, not
    including, its argument;
  \<^item> \<open>Marshal\<close>: \<^verbatim>\<open>proto.Marshal\<close> of the request holding the given series;
  \<^item> \<open>snappy_Encode\<close>: \<^verbatim>\<open>snappy.Encode\<close>;
  \<^item> \<open>NewRequest_error\<close>: the error of \<^verbatim>\<open>http.NewRequest\<close> for a method and
    a URL, if any;
  \<^item> \<open>Do\<close>: \<^verbatim>\<open>client.Do\<close>, a transport error or the response;
  \<^item> \<open>Now_check\<close>: \<^verbatim>\<open>time.Now()\<close> in the deadline test of \<^verbatim>\<open>Write\<close>.
\<close>

record 'tls World =
  TLSConfig :: "error + 'tls"
  url_Parse :: "string \<Rightarrow> error + string"
  LookupIP :: "string \<Rightarrow> error + IP list"
  Now_resolve :: int
  Intn :: "int \<Rightarrow> int"
  Marshal :: "TimeSeries list \<Rightarrow> error + bytes"
  snappy_Encode :: "bytes \<Rightarrow> bytes"
  NewRequest_error :: "string \<Rightarrow> string \<Rightarrow> error option"
  Do :: "'tls Client \<Rightarrow> Request \<Rightarrow> error + Response"
  Now_check :: int

text \<open>
  The calls the plugin makes on the pool, recorded in the order they happen:
  \<open>ClientDo i\<close> for \<^verbatim>\<open>p.clients[i].Do(httpReq)\<close>, \<open>ResolveDns\<close> for a call of
  \<^verbatim>\<open>p.resolveDns()\<close>.
\<close>

datatype event = ClientDo int | ResolveDns

subsection \<open>Durations and instants\<close>

text \<open>
  A \<^verbatim>\<open>time.Duration\<close> is an \<^verbatim>\<open>int64\<close> of nanoseconds. \<^verbatim>\<open>Time.Sub\<close> saturates
  at the least and the greatest duration; \<^verbatim>\<open>Time.Add\<close> moves an instant by a
  duration.
\<close>

definition Second :: int64 where
  "Second = 1000000000"

definition Sub :: "int \<Rightarrow> int \<Rightarrow> int64" where
  "Sub t u =
     (let d = t - u
      in if d < - (2 ^ 63) then word_of_int (- (2 ^ 63))
         else if 2 ^ 63 - 1 < d then word_of_int (2 ^ 63 - 1)
         else word_of_int d)"

definition Add :: "int \<Rightarrow> int64 \<Rightarrow> int" where
  "Add t d = t + sint d"

subsection \<open>\<^verbatim>\<open>resolveDns\<close> and \<^verbatim>\<open>Connect\<close>\<close>

text \<open>
  The loop \<^verbatim>\<open>for i := 0; i <= 5*len(ips); i++\<close>, with \<open>n\<close> for \<^verbatim>\<open>len(ips)\<close> and
  \<open>cs\<close> for \<^verbatim>\<open>p.clients\<close>.
\<close>

function clients_loop :: "int \<Rightarrow> int \<Rightarrow> 'tls \<Rightarrow> 'tls Client list \<Rightarrow> 'tls Client list" where
  "clients_loop i n tlsConfig cs =
     (if i \<le> 5 * n
      then clients_loop (i + 1) n tlsConfig (cs @ [\<lparr>TLSClientConfig = tlsConfig\<rparr>])
      else cs)"
  by pat_completeness auto
termination
  by (relation "measure (\<lambda>(i, n, tlsConfig, cs). nat (5 * n + 1 - i))") auto

declare clients_loop.simps [simp del]

definition resolveDns ::
  "'tls World \<Rightarrow> 'tls PrometheusRemoteWrite \<Rightarrow> error option \<times> 'tls PrometheusRemoteWrite" where
  "resolveDns w p =
     (case TLSConfig w of
        Inl err \<Rightarrow> (Some err, p)
      | Inr tlsConfig \<Rightarrow>
          let p = p\<lparr>clients := []\<rparr>
          in (case url_Parse w (URL p) of
                Inl err \<Rightarrow> (Some err, p)
              | Inr hostname \<Rightarrow>
                  (case LookupIP w hostname of
                     Inl err \<Rightarrow> (Some err, p)
                   | Inr ips \<Rightarrow>
                       let p = p\<lparr>nextResolve :=
                                   Add (Now_resolve w)
                                     (60 * Second + word_of_int (Intn w 90) * Second)\<rparr>;
                           p = p\<lparr>clients :=
                                   clients_loop 0 (int (length ips)) tlsConfig (clients p)\<rparr>
                       in (None, p))))"

definition Connect ::
  "'tls World \<Rightarrow> 'tls PrometheusRemoteWrite \<Rightarrow> error option \<times> 'tls PrometheusRemoteWrite" where
  "Connect w p = resolveDns w p"

subsection \<open>\<^verbatim>\<open>Write\<close>\<close>

text \<open>
  The first statements of \<^verbatim>\<open>Write\<close>: the cursor moves on by one and goes back to 0
  when it reaches the pool size.
\<close>

definition acquire :: "'tls PrometheusRemoteWrite \<Rightarrow> 'tls PrometheusRemoteWrite" where
  "acquire p =
     (let p = p\<lparr>nextIndex := nextIndex p + 1\<rparr>
      in if int (length (clients p)) \<le> nextIndex p then p\<lparr>nextIndex := 0\<rparr> else p)"

text \<open>
  The request: \<^verbatim>\<open>http.NewRequest("POST", p.URL, body)\<close>, the four headers and, when a
  user name or a password is set, the basic-auth credentials.
\<close>

definition new_request ::
  "'tls World \<Rightarrow> 'tls PrometheusRemoteWrite \<Rightarrow> bytes \<Rightarrow> error + Request" where
  "new_request w p compressed =
     (case NewRequest_error w ''POST'' (URL p) of
        Some err \<Rightarrow> Inl err
      | None \<Rightarrow>
          let httpReq = \<lparr>Method = ''POST'', Request_URL = URL p, Body = compressed,
                         Header = [], BasicAuth = None\<rparr>;
              httpReq = httpReq\<lparr>Header := Header httpReq @ [(''Content-Encoding'', ''snappy'')]\<rparr>;
              httpReq = httpReq\<lparr>Header := Header httpReq @ [(''Content-Type'', ''application/x-protobuf'')]\<rparr>;
              httpReq = httpReq\<lparr>Header := Header httpReq
                           @ [(''X-Prometheus-Remote-Write-Version'', ''0.1.0'')]\<rparr>;
              httpReq = httpReq\<lparr>Header := Header httpReq @ [(''User-Agent'', ''Telegraf/12345'')]\<rparr>
          in Inr (if BasicUsername p \<noteq> [] \<or> BasicPassword p \<noteq> []
                  then httpReq\<lparr>BasicAuth := Some (BasicUsername p, BasicPassword p)\<rparr>
                  else httpReq))"

text \<open>
  The middle of \<^verbatim>\<open>Write\<close>, from the encoding loop to
  \<^verbatim>\<open>p.clients[p.nextIndex].Do(httpReq)\<close>: the response, or the error together with the
  calls made on the pool until then. The index expression panics outside the pool.
\<close>

definition send ::
  "(string \<Rightarrow> string) \<Rightarrow> 'tls World \<Rightarrow> 'tls PrometheusRemoteWrite \<Rightarrow> Metric list
     \<Rightarrow> (error \<times> event list) + Response" where
  "send san w p metrics =
     (let req = encode san metrics
      in case Marshal w req of
           Inl err \<Rightarrow> Inl (err, [])
         | Inr buf \<Rightarrow>
             (case new_request w p (snappy_Encode w buf) of
                Inl err \<Rightarrow> Inl (err, [])
              | Inr httpReq \<Rightarrow>
                  if \<not> (0 \<le> nextIndex p \<and> nextIndex p < int (length (clients p)))
                  then Inl (IndexOutOfRange, [])
                  else (case Do w (clients p ! nat (nextIndex p)) httpReq of
                          Inl err \<Rightarrow> Inl (err, [ClientDo (nextIndex p)])
                        | Inr resp \<Rightarrow> Inr resp)))"

text \<open>
  \<^verbatim>\<open>Write\<close> returns its error (\<open>None\<close> for \<^verbatim>\<open>nil\<close>), the shipper as the call leaves
  it, and the calls it made on the pool. The status test is Go's truncating
  \<^verbatim>\<open>resp.StatusCode/100 != 2\<close>; the deadline test is
  \<^verbatim>\<open>p.nextResolve.Sub(time.Now()) <= 0\<close>.
\<close>

definition Write ::
  "(string \<Rightarrow> string) \<Rightarrow> 'tls World \<Rightarrow> 'tls PrometheusRemoteWrite \<Rightarrow> Metric list
     \<Rightarrow> error option \<times> 'tls PrometheusRemoteWrite \<times> event list" where
  "Write san w p metrics =
     (let p = acquire p
      in case send san w p metrics of
           Inl (err, log) \<Rightarrow> (Some err, p, log)
         | Inr resp \<Rightarrow>
             if StatusCode resp sdiv 100 \<noteq> 2
             then (Some (HTTPStatusError (Status resp) (StatusCode resp)), p,
                   [ClientDo (nextIndex p)])
             else if sint (Sub (nextResolve p) (Now_check w)) \<le> 0
             then (case resolveDns w p of
                     (err, p') \<Rightarrow> (err, p', [ClientDo (nextIndex p), ResolveDns]))
             else (None, p, [ClientDo (nextIndex p)]))"

text \<open>
  A sequence of calls on one shipper, each in its own world, each starting from the
  state the one before left.
\<close>

fun Writes ::
  "(string \<Rightarrow> string) \<Rightarrow> 'tls PrometheusRemoteWrite \<Rightarrow> ('tls World \<times> Metric list) list
     \<Rightarrow> (error option \<times> 'tls PrometheusRemoteWrite \<times> event list) list" where
  "Writes san p [] = []"
| "Writes san p (call # calls) =
     (let r = Write san (fst call) p (snd call)
      in r # Writes san (fst (snd r)) calls)"

text \<open>The indices of the clients a call handed the request to.\<close>

fun acquired :: "event list \<Rightarrow> int list" where
  "acquired [] = []"
| "acquired (ClientDo i # es) = i # acquired es"
| "acquired (ResolveDns # es) = acquired es"

text \<open>
  The call received a response of the 2xx class: \<open>send\<close> came back with a response
  whose status code lies between 200 and 299.
\<close>

definition answered_2xx ::
  "(string \<Rightarrow> string) \<Rightarrow> 'tls World \<Rightarrow> 'tls PrometheusRemoteWrite \<Rightarrow> Metric list \<Rightarrow> bool" where
  "answered_2xx san w p metrics =
     (case send san w (acquire p) metrics of
        Inl failure \<Rightarrow> False
      | Inr resp \<Rightarrow> 200 \<le> StatusCode resp \<and> StatusCode resp \<le> 299)"

text \<open>
  What it means for the calls of a run to succeed over a pool of fixed size \<open>K\<close>: each
  returns no error and leaves \<open>K\<close> clients.
\<close>

definition delivered_on :: "nat \<Rightarrow> error option \<times> 'tls PrometheusRemoteWrite \<times> event list \<Rightarrow> bool" where
  "delivered_on K r = (fst r = None \<and> length (clients (fst (snd r))) = K)"

section \<open>Example worlds and shippers\<close>

text \<open>
  A world in which everything works: the host resolves to one address, the endpoint
  answers 200, and the deadline test happens at instant 1000. The other worlds differ
  from it in one or two outcomes: a 503 answer; a deadline test late enough for the refresh;
  the same with the DNS lookup failing.
\<close>

definition ok_world :: "string World" where
  "ok_world =
     \<lparr>TLSConfig = Inr ''tls'',
      url_Parse = (\<lambda>u. Inr ''example.org''),
      LookupIP = (\<lambda>h. Inr [[192, 0, 2, 1]]),
      Now_resolve = 2000,
      Intn = (\<lambda>n. 7),
      Marshal = (\<lambda>req. Inr []),
      snappy_Encode = (\<lambda>buf. buf),
      NewRequest_error = (\<lambda>m u. None),
      Do = (\<lambda>c r. Inr \<lparr>Status = ''200 OK'', StatusCode = 200\<rparr>),
      Now_check = 1000\<rparr>"

definition unavailable_world :: "string World" where
  "unavailable_world =
     ok_world\<lparr>Do := (\<lambda>c r. Inr \<lparr>Status = ''503 Service Unavailable'', StatusCode = 503\<rparr>)\<rparr>"

definition late_world :: "string World" where
  "late_world = ok_world\<lparr>Now_check := 100000000000, Now_resolve := 100000000500\<rparr>"

definition dns_down_world :: "string World" where
  "dns_down_world = late_world\<lparr>LookupIP := (\<lambda>h. Inl LookupError)\<rparr>"

text \<open>Two more late worlds: the TLS material cannot be loaded; the URL does not parse.\<close>

definition tls_down_world :: "string World" where
  "tls_down_world = late_world\<lparr>TLSConfig := Inl TLSConfigError\<rparr>"

definition bad_url_world :: "string World" where
  "bad_url_world = late_world\<lparr>url_Parse := (\<lambda>u. Inl URLParseError)\<rparr>"

text \<open>
  A fresh instance as the plugin registry creates it (\<^verbatim>\<open>&PrometheusRemoteWrite{}\<close> with
  the URL of the configuration), and the same after \<^verbatim>\<open>Connect\<close> in \<open>ok_world\<close>.
\<close>

definition fresh :: "string PrometheusRemoteWrite" where
  "fresh =
     \<lparr>URL = ''http://example.org/push'', BasicUsername = [], BasicPassword = [],
      clients = [], nextIndex = 0, nextResolve = 0\<rparr>"

definition connected :: "string PrometheusRemoteWrite" where
  "connected = snd (Connect ok_world fresh)"

text \<open>Records for the examples of the encoder.\<close>

definition dup_name_metric :: Metric where
  "dup_name_metric =
     \<lparr>Name = ''mem'',
      TagList = [\<lparr>Tag_Key = ''__name__'', Tag_Value = ''x''\<rparr>],
      FieldList = [\<lparr>Field_Key = ''used'', Field_Value = Float (Float64 0x4090000000000000)\<rparr>],
      UnixNano = 0,
      Type = Gauge\<rparr>"

text \<open>The labels of the series of \<open>dup_name_metric\<close>.\<close>

definition dup_name_labels :: "Label list" where
  "dup_name_labels =
     [\<lparr>Label_Name = ''__name__'', Label_Value = ''x''\<rparr>,
      \<lparr>Label_Name = ''__name__'', Label_Value = ''mem_used''\<rparr>]"

definition mixed_metric :: Metric where
  "mixed_metric =
     \<lparr>Name = ''cpu.usage'',
      TagList = [\<lparr>Tag_Key = ''server-name'', Tag_Value = ''s1''\<rparr>],
      FieldList =
        [\<lparr>Field_Key = ''state'', Field_Value = String ''up''\<rparr>,
         \<lparr>Field_Key = ''idle'', Field_Value = Int64 1024\<rparr>,
         \<lparr>Field_Key = ''ok'', Field_Value = Bool True\<rparr>,
         \<lparr>Field_Key = ''busy'', Field_Value = Float (Float64 0x3FF0000000000000)\<rparr>,
         \<lparr>Field_Key = ''total'', Field_Value = Uint64 3\<rparr>],
      UnixNano = 1500000,
      Type = Counter\<rparr>"

text \<open>The first series of \<open>mixed_metric\<close>.\<close>

definition idle_series :: TimeSeries where
  "idle_series =
     \<lparr>Labels = [\<lparr>Label_Name = ''__name__'', Label_Value = ''cpu_usage_idle''\<rparr>,
                \<lparr>Label_Name = ''server_name'', Label_Value = ''s1''\<rparr>],
      Samples = [\<lparr>Timestamp = 1, Sample_Value = Float64 0x4090000000000000\<rparr>]\<rparr>"

definition histogram_metric :: Metric where
  "histogram_metric = mixed_metric\<lparr>Type := Histogram\<rparr>"

section \<open>Facts about the arithmetic\<close>

lemma bit_len_numeral:
  "bit_len 0 = 0"
  "bit_len (Suc 0) = Suc 0"
  "bit_len (numeral num.One) = Suc 0"
  "bit_len (numeral (num.Bit0 k)) = Suc (bit_len (numeral k))"
  "bit_len (numeral (num.Bit1 k)) = Suc (bit_len (numeral k))"
proof -
  show "bit_len 0 = 0" by (simp add: bit_len.simps)
  show "bit_len (Suc 0) = Suc 0"
    by (simp add: bit_len.simps [of "Suc 0"] bit_len.simps [of 0])
  then show "bit_len (numeral num.One) = Suc 0" by simp
  show "bit_len (numeral (num.Bit0 k)) = Suc (bit_len (numeral k))"
    by (subst bit_len.simps) simp
  show "bit_len (numeral (num.Bit1 k)) = Suc (bit_len (numeral k))"
    by (subst bit_len.simps) simp
qed

text \<open>
  The conversion on a few integers: exact up to \<open>2^53\<close>, ties to even above, the sign in
  the top bit.
\<close>

lemma float64_of_int64_examples:
  "float64_of_int64 0 = Float64 0"
  "float64_of_int64 1 = Float64 0x3FF0000000000000"
  "float64_of_int64 (- 1) = Float64 0xBFF0000000000000"
  "float64_of_int64 1024 = Float64 0x4090000000000000"
  "float64_of_int64 (2 ^ 53 + 1) = Float64 0x4340000000000000"
  "float64_of_int64 (2 ^ 53 + 3) = Float64 0x4340000000000002"
  "float64_of_int64 (- (2 ^ 63)) = Float64 0xC3E0000000000000"
  by (simp_all add: float64_of_int64_def float64_bits_of_nat_def bit_len_numeral Let_def)

lemma float64_of_uint64_examples:
  "float64_of_uint64 3 = Float64 0x4008000000000000"
  "float64_of_uint64 1024 = Float64 0x4090000000000000"
  "float64_of_uint64 0xFFFFFFFFFFFFFFFF = Float64 0x43F0000000000000"
  by (simp_all add: float64_of_uint64_def float64_bits_of_nat_def bit_len_numeral Let_def)

text \<open>Division by \<open>10^6\<close> never leaves the \<^verbatim>\<open>int64\<close> range: it is the truncated quotient.\<close>

lemma trunc_div_bounds:
  fixes x :: int
  assumes "- B \<le> x" "x < B"
  shows "- B \<le> x sdiv 1000000 \<and> x sdiv 1000000 < B"
proof (cases "0 \<le> x")
  case True
  then have "x sdiv 1000000 = x div 1000000"
    by (simp add: signed_divide_int_def sgn_if)
  moreover have "0 \<le> x div 1000000" using True by simp
  moreover have "x div 1000000 \<le> x"
    using True by (cases "x = 0") (simp_all add: int_div_le_self)
  ultimately show ?thesis using assms by linarith
next
  case False
  then have "x sdiv 1000000 = - ((- x) div 1000000)"
    by (simp add: signed_divide_int_def sgn_if)
  moreover have "0 \<le> (- x) div 1000000" using False by simp
  moreover have "(- x) div 1000000 \<le> - x" using False by (simp add: int_div_le_self)
  ultimately show ?thesis using assms by linarith
qed

lemma sint_int64_div: "sint (int64_div a 1000000) = sint a sdiv 1000000"
proof -
  have lo: "- (2 ^ 63) \<le> sint a" and hi: "sint a < 2 ^ 63"
    using sint_ge [of a] sint_lt [of a] by simp_all
  have "- (2 ^ 63) \<le> sint a sdiv 1000000 \<and> sint a sdiv 1000000 < 2 ^ 63"
    using lo hi by (rule trunc_div_bounds)
  then have "signed_take_bit 63 (sint a sdiv 1000000) = sint a sdiv 1000000"
    by (intro signed_take_bit_int_eq_self) simp_all
  then show ?thesis by (simp add: int64_div_def sint_sbintrunc')
qed











text \<open>Reading back: integers, and patterns that are not integers.\<close>

lemma float64_to_int_examples:
  "float64_to_int (Float64 0x4090000000000000) = Some 1024"
  "float64_to_int (Float64 0x4008000000000000) = Some 3"
  "float64_to_int (Float64 0x3FF0000000000000) = Some 1"
  "float64_to_int (Float64 0xBFF0000000000000) = Some (- 1)"
  "float64_to_int (Float64 0x43F0000000000000) = Some (2 ^ 64)"
  "float64_to_int (Float64 0x400) = None"
  "float64_to_int (Float64 0x3FE0000000000000) = None"
  by (simp_all add: float64_to_int_def float64_nat_of_bits_def)

section \<open>Facts about the encoding loop\<close>

text \<open>
  Both loops only append to \<^verbatim>\<open>req.Timeseries\<close>, so the series of a batch are the
  series of its records, one record after the other.
\<close>

lemma fields_loop_append:
  "fields_loop common metric fs ts = ts @ fields_loop common metric fs []"
proof (induction fs arbitrary: ts)
  case Nil
  show ?case by simp
next
  case (Cons f fs)
  show ?case
    using Cons.IH [of "ts @ [x]" for x] Cons.IH [of "[x]" for x] Cons.IH [of ts]
    by (simp add: Let_def split: option.split)
qed

lemma metrics_loop_append:
  "metrics_loop san ms ts = ts @ metrics_loop san ms []"
proof (induction ms arbitrary: ts)
  case Nil
  show ?case by simp
next
  case (Cons m ms)
  have "metrics_loop san (m # ms) ts
        = fields_loop (commonLabels san m) m (FieldList m) ts @ metrics_loop san ms []"
    using Cons.IH [of "fields_loop (commonLabels san m) m (FieldList m) ts"] by simp
  also have "\<dots> = ts @ fields_loop (commonLabels san m) m (FieldList m) [] @ metrics_loop san ms []"
    using fields_loop_append [of _ _ _ ts] by simp
  also have "\<dots> = ts @ metrics_loop san (m # ms) []"
    using Cons.IH [of "fields_loop (commonLabels san m) m (FieldList m) []"] by simp
  finally show ?case .
qed

lemma encode_Nil: "encode san [] = []"
  by (simp add: encode_def)

lemma encode_Cons: "encode san (m # ms) = encode san [m] @ encode san ms"
  using metrics_loop_append [of san ms "fields_loop (commonLabels san m) m (FieldList m) []"]
  by (simp add: encode_def)

lemma encode_append: "encode san (xs @ ys) = encode san xs @ encode san ys"
proof (induction xs)
  case Nil
  show ?case by (simp add: encode_Nil)
next
  case (Cons m xs)
  then show ?case
    using encode_Cons [of san m "xs @ ys"] encode_Cons [of san m xs] by simp
qed

lemma fields_loop_skipped:
  "Type metric = Histogram \<or> Type metric = Summary \<Longrightarrow> fields_loop common metric fs ts = ts"
  by (induction fs) (simp_all add: Let_def)

lemma fields_loop_numeric:
  "Type metric \<noteq> Histogram \<Longrightarrow> Type metric \<noteq> Summary \<Longrightarrow>
   fields_loop (commonLabels san metric) metric fs [] =
     List.map_filter
       (\<lambda>field. map_option (series_of san metric field) (float_value (Field_Value field))) fs"
proof (induction fs)
  case Nil
  show ?case by (simp add: map_filter_simps)
next
  case (Cons f fs)
  then show ?case
    using fields_loop_append [of "commonLabels san metric" metric fs "[x]" for x]
    by (simp add: Let_def map_filter_simps series_of_def split: option.split)
qed

lemma encode_single:
  "encode san [m] = fields_loop (commonLabels san m) m (FieldList m) []"
  by (simp add: encode_def)

lemma in_encode_single:
  assumes "ts \<in> set (encode san [m])"
  shows "\<exists>f \<in> set (FieldList m). Labels ts = field_labels (commonLabels san m) m f"
proof (cases "Type m = Histogram \<or> Type m = Summary")
  case True
  then show ?thesis using assms by (simp add: encode_single fields_loop_skipped)
next
  case False
  then have "encode san [m] = List.map_filter
       (\<lambda>field. map_option (series_of san m field) (float_value (Field_Value field))) (FieldList m)"
    by (simp add: encode_single fields_loop_numeric)
  with assms show ?thesis
    by (auto simp: map_filter_def series_of_def)
qed

lemma in_encode:
  "ts \<in> set (encode san ms) \<Longrightarrow> \<exists>m \<in> set ms. ts \<in> set (encode san [m])"
proof (induction ms)
  case Nil
  then show ?case by (simp add: encode_Nil)
next
  case (Cons m ms)
  then show ?case using encode_Cons [of san m ms] by auto
qed


lemma encode_skip_record:
  assumes "Type m = Histogram \<or> Type m = Summary"
  shows "encode san (xs @ m # ys) = encode san (xs @ ys)"
proof -
  have "encode san [m] = []"
    using assms by (simp add: encode_single fields_loop_skipped)
  then show ?thesis
    using encode_append [of san xs "m # ys"] encode_Cons [of san m ys] encode_append [of san xs ys]
    by simp
qed

lemma mixed_metric_series:
  "encode Sanitize [mixed_metric] =
     [\<lparr>Labels = [\<lparr>Label_Name = ''__name__'', Label_Value = ''cpu_usage_idle''\<rparr>,
                 \<lparr>Label_Name = ''server_name'', Label_Value = ''s1''\<rparr>],
       Samples = [\<lparr>Timestamp = 1, Sample_Value = Float64 0x4090000000000000\<rparr>]\<rparr>,
      \<lparr>Labels = [\<lparr>Label_Name = ''__name__'', Label_Value = ''cpu_usage_busy''\<rparr>,
                 \<lparr>Label_Name = ''server_name'', Label_Value = ''s1''\<rparr>],
       Samples = [\<lparr>Timestamp = 1, Sample_Value = Float64 0x3FF0000000000000\<rparr>]\<rparr>,
      \<lparr>Labels = [\<lparr>Label_Name = ''__name__'', Label_Value = ''cpu_usage_total''\<rparr>,
                 \<lparr>Label_Name = ''server_name'', Label_Value = ''s1''\<rparr>],
       Samples = [\<lparr>Timestamp = 1, Sample_Value = Float64 0x4008000000000000\<rparr>]\<rparr>]"
  by (simp add: mixed_metric_def encode_def commonLabels_def field_labels_def float_value_def
      renameMetrics_def is_label_start_def is_label_char_def int64_div_def
      float64_of_int64_examples float64_of_uint64_examples)




text \<open>The labels of a series: sorted by name, with the \<^verbatim>\<open>__name__\<close> label added once.\<close>

lemma field_labels_sorted: "sorted (map Label_Name (field_labels common m f))"
  by (simp add: field_labels_def)

lemma field_labels_name_count:
  "name_count (field_labels common m f) = Suc (name_count common)"
  by (simp add: field_labels_def name_count_def filter_sort)

lemma commonLabels_names:
  "map Label_Name (commonLabels san m) = map (\<lambda>tag. san (Tag_Key tag)) (TagList m)"
  by (simp add: commonLabels_def comp_def)

lemma name_count_zero:
  "''__name__'' \<notin> set (map Label_Name ls) \<Longrightarrow> name_count ls = 0"
  by (induction ls) (auto simp: name_count_def)

lemma distinct_map_sort_key:
  "distinct (map f (sort_key g xs)) = distinct (map f xs)"
  by (simp add: distinct_map)

lemma field_labels_distinct:
  assumes "distinct (map Label_Name common)" "''__name__'' \<notin> set (map Label_Name common)"
  shows "distinct (map Label_Name (field_labels common m f))"
  unfolding field_labels_def distinct_map_sort_key using assms by auto

lemma field_labels_strict:
  assumes "clean_tags san m"
  shows "sorted_wrt (<) (map Label_Name (field_labels (commonLabels san m) m f))
         \<and> name_count (field_labels (commonLabels san m) m f) = 1"
proof -
  have d: "distinct (map Label_Name (commonLabels san m))"
    and n: "''__name__'' \<notin> set (map Label_Name (commonLabels san m))"
    using assms unfolding clean_tags_def commonLabels_names by simp_all
  have "distinct (map Label_Name (field_labels (commonLabels san m) m f))"
    using d n by (rule field_labels_distinct)
  then have "sorted_wrt (<) (map Label_Name (field_labels (commonLabels san m) m f))"
    using field_labels_sorted [of "commonLabels san m" m f] by (simp add: strict_sorted_iff)
  moreover have "name_count (field_labels (commonLabels san m) m f) = 1"
    using name_count_zero [OF n] by (simp add: field_labels_name_count)
  ultimately show ?thesis by simp
qed

section \<open>Facts about the pool\<close>

lemma clients_loop_length:
  "length (clients_loop i n tlsConfig cs) = length cs + nat (5 * n + 1 - i)"
proof (induction i n tlsConfig cs rule: clients_loop.induct)
  case (1 i n tlsConfig cs)
  show ?case
  proof (cases "i \<le> 5 * n")
    case True
    then show ?thesis
      using "1.IH" by (subst clients_loop.simps) (simp add: nat_diff_distrib)
  next
    case False
    then show ?thesis by (subst clients_loop.simps) simp
  qed
qed

lemma sint_Sub: "sint (Sub t u) \<le> 0 \<longleftrightarrow> t \<le> u"
proof -
  have a: "sint (word_of_int (- (2 ^ 63)) :: int64) = - (2 ^ 63)" by simp
  have b: "sint (word_of_int (2 ^ 63 - 1) :: int64) = 2 ^ 63 - 1" by simp
  have c: "sint (word_of_int d :: int64) = d" if "- (2 ^ 63) \<le> d" "d \<le> 2 ^ 63 - 1" for d :: int
  proof -
    have "signed_take_bit 63 d = d"
      using that by (intro signed_take_bit_int_eq_self) simp_all
    then show ?thesis by (simp add: sint_sbintrunc')
  qed
  show ?thesis
  proof (cases "t - u < - (2 ^ 63)")
    case True
    then show ?thesis unfolding Sub_def Let_def using a by simp
  next
    case False
    note lo = this
    show ?thesis
    proof (cases "2 ^ 63 - 1 < t - u")
      case True
      then show ?thesis unfolding Sub_def Let_def using lo b by simp
    next
      case False
      then have "sint (Sub t u) = t - u"
        unfolding Sub_def Let_def using lo c [of "t - u"] by simp
      then show ?thesis by simp
    qed
  qed
qed

lemma jitter_duration:
  assumes "0 \<le> r" "r < 90"
  shows "sint (60 * Second + word_of_int r * Second) = 60000000000 + r * 1000000000"
proof -
  have "signed_take_bit 63 (60000000000 + r * 1000000000) = 60000000000 + r * 1000000000"
    using assms by (intro signed_take_bit_int_eq_self) simp_all
  then have "sint (word_of_int (60000000000 + r * 1000000000) :: int64)
             = 60000000000 + r * 1000000000"
    by (simp only: sint_sbintrunc') simp
  then show ?thesis by (simp add: Second_def)
qed

lemma status_2xx: "(c::int) sdiv 100 = 2 \<longleftrightarrow> 200 \<le> c \<and> c \<le> 299"
proof (cases "0 \<le> c")
  case True
  then have "c sdiv 100 = c div 100" by (simp add: signed_divide_int_def sgn_if)
  then show ?thesis by presburger
next
  case False
  then have "c sdiv 100 = - ((- c) div 100)" by (simp add: signed_divide_int_def sgn_if)
  moreover have "0 \<le> (- c) div 100" using False by simp
  ultimately show ?thesis using False by simp
qed

lemma resolveDns_nextIndex: "nextIndex (snd (resolveDns w p)) = nextIndex p"
  by (simp add: resolveDns_def Let_def split: sum.split)

lemma resolveDns_tls_error:
  "TLSConfig w = Inl e \<Longrightarrow> resolveDns w p = (Some e, p)"
  by (simp add: resolveDns_def)

lemma resolveDns_parse_error:
  "TLSConfig w = Inr t \<Longrightarrow> url_Parse w (URL p) = Inl e \<Longrightarrow>
   resolveDns w p = (Some e, p\<lparr>clients := []\<rparr>)"
  by (simp add: resolveDns_def)

lemma resolveDns_lookup_error:
  "TLSConfig w = Inr t \<Longrightarrow> url_Parse w (URL p) = Inr h \<Longrightarrow> LookupIP w h = Inl e \<Longrightarrow>
   resolveDns w p = (Some e, p\<lparr>clients := []\<rparr>)"
  by (simp add: resolveDns_def)

lemma resolveDns_ok:
  "TLSConfig w = Inr t \<Longrightarrow> url_Parse w (URL p) = Inr h \<Longrightarrow> LookupIP w h = Inr ips \<Longrightarrow>
   resolveDns w p =
     (None, p\<lparr>clients := clients_loop 0 (int (length ips)) t [],
              nextResolve := Add (Now_resolve w) (60 * Second + word_of_int (Intn w 90) * Second)\<rparr>)"
  by (simp add: resolveDns_def)

lemma resolveDns_deadline_ok:
  "fst (resolveDns w p) = None \<Longrightarrow>
   nextResolve (snd (resolveDns w p))
     = Add (Now_resolve w) (60 * Second + word_of_int (Intn w 90) * Second)"
  by (simp add: resolveDns_def Let_def split: sum.splits)

lemma resolveDns_deadline_error:
  "fst (resolveDns w p) = Some e \<Longrightarrow> nextResolve (snd (resolveDns w p)) = nextResolve p"
  by (simp add: resolveDns_def Let_def split: sum.splits)

lemma resolveDns_other_fields:
  "URL (snd (resolveDns w p)) = URL p"
  "BasicUsername (snd (resolveDns w p)) = BasicUsername p"
  "BasicPassword (snd (resolveDns w p)) = BasicPassword p"
  by (simp_all add: resolveDns_def Let_def split: sum.splits)

lemma resolveDns_length:
  "TLSConfig w = Inr t \<Longrightarrow> url_Parse w (URL p) = Inr h \<Longrightarrow> LookupIP w h = Inr ips \<Longrightarrow>
   length (clients (snd (resolveDns w p))) = 5 * length ips + 1"
  by (simp add: resolveDns_ok clients_loop_length nat_add_distrib nat_mult_distrib)

lemma acquire_fields:
  "clients (acquire p) = clients p" "nextResolve (acquire p) = nextResolve p"
  "URL (acquire p) = URL p"
  by (simp_all add: acquire_def Let_def)

lemma acquire_nextIndex:
  "nextIndex (acquire p) =
     (if int (length (clients p)) \<le> nextIndex p + 1 then 0 else nextIndex p + 1)"
  by (simp add: acquire_def Let_def)


lemma clients_loop_eq:
  "clients_loop i n tlsConfig cs
     = cs @ replicate (nat (5 * n + 1 - i)) \<lparr>TLSClientConfig = tlsConfig\<rparr>"
proof (induction i n tlsConfig cs rule: clients_loop.induct)
  case (1 i n tlsConfig cs)
  show ?case
  proof (cases "i \<le> 5 * n")
    case True
    then have "nat (5 * n + 1 - i) = Suc (nat (5 * n + 1 - (i + 1)))" by simp
    then show ?thesis
      using "1.IH" True by (subst clients_loop.simps) (simp add: replicate_append_same)
  next
    case False
    then show ?thesis by (subst clients_loop.simps) simp
  qed
qed

lemma Write_nextIndex:
  "nextIndex (fst (snd (Write san w p ms))) = nextIndex (acquire p)"
  using resolveDns_nextIndex [of w "acquire p"]
  by (auto simp: Write_def Let_def split: sum.splits prod.splits)

lemma Write_rejected_eq:
  assumes "send san w (acquire p) ms = Inr resp" "StatusCode resp sdiv 100 \<noteq> 2"
  shows "Write san w p ms =
    (Some (HTTPStatusError (Status resp) (StatusCode resp)), acquire p,
     [ClientDo (nextIndex (acquire p))])"
  using assms by (simp add: Write_def Let_def)

lemma Write_refresh_eq:
  assumes "send san w (acquire p) ms = Inr resp" "StatusCode resp sdiv 100 = 2"
    "nextResolve p \<le> Now_check w"
  shows "Write san w p ms =
    (fst (resolveDns w (acquire p)), snd (resolveDns w (acquire p)),
     [ClientDo (nextIndex (acquire p)), ResolveDns])"
  using assms by (simp add: Write_def Let_def sint_Sub acquire_fields split: prod.splits)

lemma Write_no_refresh_eq:
  assumes "send san w (acquire p) ms = Inr resp" "StatusCode resp sdiv 100 = 2"
    "Now_check w < nextResolve p"
  shows "Write san w p ms = (None, acquire p, [ClientDo (nextIndex (acquire p))])"
  using assms by (simp add: Write_def Let_def sint_Sub acquire_fields)

lemma send_log:
  "send san w p ms = Inl (e, log) \<Longrightarrow> ResolveDns \<notin> set log"
  by (auto simp: send_def Let_def split: sum.splits if_splits)

lemma Write_ResolveDns_only_if:
  assumes "ResolveDns \<in> set (snd (snd (Write san w p ms)))"
  shows "\<exists>resp. send san w (acquire p) ms = Inr resp \<and> StatusCode resp sdiv 100 = 2
           \<and> nextResolve p \<le> Now_check w"
proof (cases "send san w (acquire p) ms")
  case (Inl a)
  then show ?thesis
    using assms send_log [of san w "acquire p" ms "fst a" "snd a"]
    by (simp add: Write_def Let_def split: prod.splits)
next
  case (Inr resp)
  then show ?thesis
    using assms
    by (simp add: Write_def Let_def sint_Sub acquire_fields split: if_splits prod.splits)
qed

lemma Write_success_log:
  assumes "fst (Write san w p ms) = None"
  shows "acquired (snd (snd (Write san w p ms))) = [nextIndex (acquire p)]"
  using assms
  by (simp add: Write_def Let_def split: sum.splits prod.splits if_splits)

lemma connected_eq:
  "connected =
     \<lparr>URL = ''http://example.org/push'', BasicUsername = [], BasicPassword = [],
      clients = replicate 6 \<lparr>TLSClientConfig = ''tls''\<rparr>,
      nextIndex = 0, nextResolve = 67000002000\<rparr>"
  by (simp add: connected_def Connect_def resolveDns_def ok_world_def fresh_def
      clients_loop_eq Add_def Second_def)

lemma Connect_ok: "fst (Connect ok_world fresh) = None"
  by (simp add: Connect_def resolveDns_def ok_world_def fresh_def)

lemma answered_2xx_iff:
  "answered_2xx san w p ms
     \<longleftrightarrow> (\<exists>resp. send san w (acquire p) ms = Inr resp \<and> StatusCode resp sdiv 100 = 2)"
  by (auto simp: answered_2xx_def status_2xx split: sum.splits)

lemma Write_ResolveDns_iff:
  "ResolveDns \<in> set (snd (snd (Write san w p ms)))
     \<longleftrightarrow> answered_2xx san w p ms \<and> nextResolve p \<le> Now_check w"
proof
  assume "ResolveDns \<in> set (snd (snd (Write san w p ms)))"
  then show "answered_2xx san w p ms \<and> nextResolve p \<le> Now_check w"
    using Write_ResolveDns_only_if [of san w p ms] by (auto simp: answered_2xx_iff)
next
  assume "answered_2xx san w p ms \<and> nextResolve p \<le> Now_check w"
  then obtain resp where "send san w (acquire p) ms = Inr resp" "StatusCode resp sdiv 100 = 2"
    and "nextResolve p \<le> Now_check w"
    by (auto simp: answered_2xx_iff)
  then show "ResolveDns \<in> set (snd (snd (Write san w p ms)))"
    by (simp add: Write_refresh_eq)
qed

lemma Write_refresh:
  assumes "answered_2xx san w p ms" "nextResolve p \<le> Now_check w"
  shows "Write san w p ms =
    (fst (resolveDns w (acquire p)), snd (resolveDns w (acquire p)),
     [ClientDo (nextIndex (acquire p)), ResolveDns])"
proof -
  from assms(1) obtain resp where "send san w (acquire p) ms = Inr resp"
    "StatusCode resp sdiv 100 = 2"
    by (auto simp: answered_2xx_iff)
  then show ?thesis using assms(2) by (rule Write_refresh_eq)
qed

text \<open>A run of calls that succeed over a pool of fixed size.\<close>

lemma upt_shift:
  "map (\<lambda>k. i + int k) [1..<Suc (Suc n)] = (i + 1) # map (\<lambda>k. (i + 1) + int k) [1..<Suc n]"
proof -
  have "[1..<Suc (Suc n)] = 1 # map Suc [1..<Suc n]"
    by (simp add: upt_conv_Cons map_Suc_upt del: upt_Suc)
  then show ?thesis by (simp add: comp_def del: upt_Suc)
qed

lemma round_robin_from:
  assumes "length (clients p) = K" "0 \<le> nextIndex p"
    "nextIndex p + int (length calls) < int K"
    "list_all (delivered_on K) (Writes san p calls)"
  shows "concat (map (\<lambda>r. acquired (snd (snd r))) (Writes san p calls))
           = map (\<lambda>k. nextIndex p + int k) [1..<Suc (length calls)]
       \<and> map (\<lambda>r. nextIndex (fst (snd r))) (Writes san p calls)
           = map (\<lambda>k. nextIndex p + int k) [1..<Suc (length calls)]"
  using assms
proof (induction calls arbitrary: p)
  case Nil
  then show ?case by simp
next
  case (Cons call calls)
  define r where "r = Write san (fst call) p (snd call)"
  define q where "q = fst (snd r)"
  have W: "Writes san p (call # calls) = r # Writes san q calls"
    by (simp add: r_def q_def Let_def)
  from Cons.prems(4) have ok: "delivered_on K r"
    and rest: "list_all (delivered_on K) (Writes san q calls)"
    unfolding W by simp_all
  have adv: "nextIndex (acquire p) = nextIndex p + 1"
    using Cons.prems(1,3) by (simp add: acquire_nextIndex)
  have qi: "nextIndex q = nextIndex p + 1"
    unfolding q_def r_def using adv by (simp add: Write_nextIndex)
  have ql: "length (clients q) = K"
    using ok by (simp add: delivered_on_def q_def)
  have log: "acquired (snd (snd r)) = [nextIndex p + 1]"
    using ok adv unfolding r_def delivered_on_def by (simp add: Write_success_log)
  have "0 \<le> nextIndex q" "nextIndex q + int (length calls) < int K"
    using Cons.prems(2,3) qi by simp_all
  from Cons.IH [OF ql this rest]
  have IH: "concat (map (\<lambda>r. acquired (snd (snd r))) (Writes san q calls))
           = map (\<lambda>k. (nextIndex p + 1) + int k) [1..<Suc (length calls)]"
       "map (\<lambda>r. nextIndex (fst (snd r))) (Writes san q calls)
           = map (\<lambda>k. (nextIndex p + 1) + int k) [1..<Suc (length calls)]"
    by (simp_all add: qi)
  show ?case
    unfolding W using IH log qi upt_shift [of "nextIndex p" "length calls"]
    by (simp add: q_def del: upt_Suc)
qed

text \<open>The example shipper in the example worlds.\<close>

lemma acquire_connected:
  "acquire connected =
     \<lparr>URL = ''http://example.org/push'', BasicUsername = [], BasicPassword = [],
      clients = replicate 6 \<lparr>TLSClientConfig = ''tls''\<rparr>,
      nextIndex = 1, nextResolve = 67000002000\<rparr>"
  by (simp add: connected_eq acquire_def)

lemma send_unavailable:
  "send Sanitize unavailable_world (acquire connected) []
     = Inr \<lparr>Status = ''503 Service Unavailable'', StatusCode = 503\<rparr>"
  by (simp add: acquire_connected send_def new_request_def unavailable_world_def ok_world_def
      encode_Nil)

lemma send_late:
  "send Sanitize late_world (acquire connected) [] = Inr \<lparr>Status = ''200 OK'', StatusCode = 200\<rparr>"
  "send Sanitize dns_down_world (acquire connected) [] = Inr \<lparr>Status = ''200 OK'', StatusCode = 200\<rparr>"
  "send Sanitize tls_down_world (acquire connected) [] = Inr \<lparr>Status = ''200 OK'', StatusCode = 200\<rparr>"
  "send Sanitize bad_url_world (acquire connected) [] = Inr \<lparr>Status = ''200 OK'', StatusCode = 200\<rparr>"
  "send Sanitize ok_world (acquire connected) [] = Inr \<lparr>Status = ''200 OK'', StatusCode = 200\<rparr>"
  by (simp_all add: acquire_connected send_def new_request_def late_world_def ok_world_def
      dns_down_world_def tls_down_world_def bad_url_world_def encode_Nil)

lemma Write_late:
  "Write Sanitize late_world connected [] =
     (None,
      \<lparr>URL = ''http://example.org/push'', BasicUsername = [], BasicPassword = [],
       clients = replicate 6 \<lparr>TLSClientConfig = ''tls''\<rparr>,
       nextIndex = 1, nextResolve = 167000000500\<rparr>,
      [ClientDo 1, ResolveDns])"
proof -
  have "Write Sanitize late_world connected [] =
    (fst (resolveDns late_world (acquire connected)), snd (resolveDns late_world (acquire connected)),
     [ClientDo (nextIndex (acquire connected)), ResolveDns])"
    by (rule Write_refresh_eq [OF send_late(1)]) (simp_all add: connected_eq late_world_def)
  then show ?thesis
    by (simp add: acquire_connected resolveDns_def late_world_def ok_world_def clients_loop_eq
        Add_def Second_def)
qed

lemma Write_dns_down:
  "Write Sanitize dns_down_world connected [] =
     (Some LookupError,
      \<lparr>URL = ''http://example.org/push'', BasicUsername = [], BasicPassword = [],
       clients = [], nextIndex = 1, nextResolve = 67000002000\<rparr>,
      [ClientDo 1, ResolveDns])"
proof -
  have "Write Sanitize dns_down_world connected [] =
    (fst (resolveDns dns_down_world (acquire connected)),
     snd (resolveDns dns_down_world (acquire connected)),
     [ClientDo (nextIndex (acquire connected)), ResolveDns])"
    by (rule Write_refresh_eq [OF send_late(2)])
      (simp_all add: connected_eq dns_down_world_def late_world_def)
  then show ?thesis
    by (simp add: acquire_connected resolveDns_def dns_down_world_def late_world_def ok_world_def)
qed

lemma answered_late:
  "answered_2xx Sanitize late_world connected []"
  "answered_2xx Sanitize dns_down_world connected []"
  "answered_2xx Sanitize tls_down_world connected []"
  "answered_2xx Sanitize bad_url_world connected []"
  by (simp_all add: answered_2xx_def send_late)

lemma Write_ok_connected:
  "Write Sanitize ok_world (connected\<lparr>nextIndex := i\<rparr>) [] =
     (None, acquire (connected\<lparr>nextIndex := i\<rparr>),
      [ClientDo (nextIndex (acquire (connected\<lparr>nextIndex := i\<rparr>)))])"
  if "0 \<le> i" "i < 5" for i
proof -
  have a: "acquire (connected\<lparr>nextIndex := i\<rparr>) = connected\<lparr>nextIndex := i + 1\<rparr>"
    using that by (simp add: connected_eq acquire_def)
  have "send Sanitize ok_world (acquire (connected\<lparr>nextIndex := i\<rparr>)) []
      = Inr \<lparr>Status = ''200 OK'', StatusCode = 200\<rparr>"
    unfolding a using that
    by (simp add: connected_eq send_def new_request_def ok_world_def encode_Nil)
  then show ?thesis
    by (rule Write_no_refresh_eq) (simp_all add: connected_eq ok_world_def)
qed

lemma Writes_three:
  "Writes Sanitize connected [(ok_world, []), (ok_world, []), (ok_world, [])] =
    [(None, connected\<lparr>nextIndex := 1\<rparr>, [ClientDo 1]),
     (None, connected\<lparr>nextIndex := 2\<rparr>, [ClientDo 2]),
     (None, connected\<lparr>nextIndex := 3\<rparr>, [ClientDo 3])]"
proof -
  have c: "connected = connected\<lparr>nextIndex := 0\<rparr>"
    by (simp add: connected_eq)
  have a: "acquire (connected\<lparr>nextIndex := i\<rparr>) = connected\<lparr>nextIndex := i + 1\<rparr>"
    if "0 \<le> i" "i < 5" for i
    using that by (simp add: connected_eq acquire_def)
  have "Writes Sanitize (connected\<lparr>nextIndex := 0\<rparr>) [(ok_world, []), (ok_world, []), (ok_world, [])] =
    [(None, connected\<lparr>nextIndex := 1\<rparr>, [ClientDo 1]),
     (None, connected\<lparr>nextIndex := 2\<rparr>, [ClientDo 2]),
     (None, connected\<lparr>nextIndex := 3\<rparr>, [ClientDo 3])]"
    using a [of 0] a [of 1] a [of 2]
    by (simp add: Let_def Write_ok_connected)
  then show ?thesis using c by simp
qed

section \<open>The encoder on one example\<close>

text \<open>
  C1. The single record named \<^verbatim>\<open>mem\<close>, with the tag \<^verbatim>\<open>host = a\<close>, the float field
  \<^verbatim>\<open>used = 1024.0\<close> (bit pattern \<^verbatim>\<open>0x4090000000000000\<close>), time \<open>t\<close> and kind Gauge,
  is encoded as exactly one series. Its labels are \<^verbatim>\<open>__name__ = mem_used\<close> and then
  \<^verbatim>\<open>host = a\<close>, which is their order by name; its only sample carries the value
  1024.0 and the timestamp \<open>t\<close> divided by \<open>10^6\<close>, truncating: nanoseconds to
  milliseconds.
\<close>

theorem encode_mem_example:
  "encode Sanitize
     [\<lparr>Name = ''mem'',
       TagList = [\<lparr>Tag_Key = ''host'', Tag_Value = ''a''\<rparr>],
       FieldList = [\<lparr>Field_Key = ''used'', Field_Value = Float (Float64 0x4090000000000000)\<rparr>],
       UnixNano = t,
       Type = Gauge\<rparr>]
   = [\<lparr>Labels = [\<lparr>Label_Name = ''__name__'', Label_Value = ''mem_used''\<rparr>,
                 \<lparr>Label_Name = ''host'', Label_Value = ''a''\<rparr>],
       Samples = [\<lparr>Timestamp = int64_div t 1000000,
                   Sample_Value = Float64 0x4090000000000000\<rparr>]\<rparr>]
   \<and> sint (int64_div t 1000000) = sint t sdiv 1000000
   \<and> sorted (map Label_Name [\<lparr>Label_Name = ''__name__'', Label_Value = ''mem_used''\<rparr>,
                 \<lparr>Label_Name = ''host'', Label_Value = ''a''\<rparr>])"
  by (simp add: encode_def commonLabels_def field_labels_def float_value_def
      renameMetrics_def is_label_start_def is_label_char_def sint_int64_div)

section \<open>Histogram and summary records\<close>

text \<open>
  C2. A record whose kind is Histogram or Summary yields no series, whatever its tags and
  fields are; the records before and after it in the batch are encoded as they would be
  without it, and the whole call of \<^verbatim>\<open>Write\<close> behaves as if the record were not in the
  batch: skipping it is no error. (The encoding loop has no error result at all.)
\<close>

theorem histogram_summary_skipped:
  assumes "Type m = Histogram \<or> Type m = Summary"
  shows "encode san [m] = []
    \<and> encode san (xs @ m # ys) = encode san xs @ encode san ys
    \<and> Write san w p (xs @ m # ys) = Write san w p (xs @ ys)"
proof -
  have e: "encode san (xs @ m # ys) = encode san (xs @ ys)"
    using assms by (rule encode_skip_record)
  have "encode san [m] = []"
    using assms by (simp add: encode_single fields_loop_skipped)
  moreover have "encode san (xs @ m # ys) = encode san xs @ encode san ys"
    using e by (simp add: encode_append)
  moreover have "Write san w p (xs @ m # ys) = Write san w p (xs @ ys)"
    by (simp add: Write_def send_def e)
  ultimately show ?thesis by simp
qed

theorem histogram_summary_skipped_witness:
  "(Type histogram_metric = Histogram \<or> Type histogram_metric = Summary)
   \<and> encode Sanitize [histogram_metric] = []
   \<and> encode Sanitize ([mixed_metric] @ histogram_metric # [mixed_metric])
       = encode Sanitize [mixed_metric] @ encode Sanitize [mixed_metric]
   \<and> Write Sanitize ok_world connected ([mixed_metric] @ histogram_metric # [mixed_metric])
       = Write Sanitize ok_world connected ([mixed_metric] @ [mixed_metric])"
proof -
  have h: "Type histogram_metric = Histogram \<or> Type histogram_metric = Summary"
    by (simp add: histogram_metric_def)
  show ?thesis
    using h histogram_summary_skipped [OF h, of Sanitize "[mixed_metric]" "[mixed_metric]" ok_world connected]
    by simp
qed

section \<open>Fields that are not numbers\<close>




section \<open>The labels of a series\<close>

text \<open>
  C4, as the code has it. In every series the encoder produces, for any batch, the
  labels are sorted ascending by name and at least one of them is named \<^verbatim>\<open>__name__\<close>.
  Labels of equal name are neither merged nor rejected. When the sanitized tag keys of all
  records are pairwise distinct and none of them is \<^verbatim>\<open>__name__\<close>, the labels are strictly
  sorted and exactly one is named \<^verbatim>\<open>__name__\<close>. This holds for every sanitizer.

  Without that condition the strict order and the single \<^verbatim>\<open>__name__\<close> fail: a record
  with a tag whose key is \<^verbatim>\<open>__name__\<close> yields a series with two labels of that name.
\<close>

theorem labels_sorted_by_name:
  assumes "ts \<in> set (encode san ms)"
  shows "sorted (map Label_Name (Labels ts)) \<and> 1 \<le> name_count (Labels ts)
    \<and> (list_all (clean_tags san) ms \<longrightarrow>
         sorted_wrt (<) (map Label_Name (Labels ts)) \<and> name_count (Labels ts) = 1)"
proof -
  from assms obtain m where m: "m \<in> set ms" and "ts \<in> set (encode san [m])"
    using in_encode by blast
  then obtain f where f: "Labels ts = field_labels (commonLabels san m) m f"
    using in_encode_single by blast
  have "sorted (map Label_Name (Labels ts))"
    unfolding f by (rule field_labels_sorted)
  moreover have "1 \<le> name_count (Labels ts)"
    unfolding f by (simp add: field_labels_name_count)
  moreover have "sorted_wrt (<) (map Label_Name (Labels ts)) \<and> name_count (Labels ts) = 1"
    if "list_all (clean_tags san) ms"
  proof -
    from that m have "clean_tags san m" by (simp add: list_all_iff)
    then show ?thesis unfolding f by (rule field_labels_strict)
  qed
  ultimately show ?thesis by blast
qed

theorem labels_sorted_by_name_witness:
  "idle_series \<in> set (encode Sanitize [mixed_metric])
   \<and> list_all (clean_tags Sanitize) [mixed_metric]
   \<and> sorted (map Label_Name (Labels idle_series)) \<and> 1 \<le> name_count (Labels idle_series)
   \<and> sorted_wrt (<) (map Label_Name (Labels idle_series))
   \<and> name_count (Labels idle_series) = 1"
proof -
  have a: "idle_series \<in> set (encode Sanitize [mixed_metric])"
    by (simp add: mixed_metric_series idle_series_def)
  have b: "list_all (clean_tags Sanitize) [mixed_metric]"
    by (simp add: clean_tags_def mixed_metric_def is_label_start_def is_label_char_def)
  show ?thesis
    using a b labels_sorted_by_name [OF a] by simp
qed

theorem labels_strictly_sorted_counterexample:
  "encode Sanitize [dup_name_metric]
     = [\<lparr>Labels = dup_name_labels,
         Samples = [\<lparr>Timestamp = 0, Sample_Value = Float64 0x4090000000000000\<rparr>]\<rparr>]
   \<and> \<not> sorted_wrt (<) (map Label_Name dup_name_labels)
   \<and> name_count dup_name_labels = 2"
  by (simp add: dup_name_metric_def dup_name_labels_def encode_def commonLabels_def
      field_labels_def float_value_def renameMetrics_def is_label_start_def is_label_char_def
      int64_div_def name_count_def)

section \<open>The size of the pool\<close>

text \<open>
  C5. The claim is that a successful resolution of \<open>n\<close> addresses builds \<open>5 * n\<close> clients.
  The loop of \<^verbatim>\<open>resolveDns\<close> runs from 0 up to and including \<open>5 * n\<close>, so it builds
  one more (lemma \<open>resolveDns_length\<close>): connecting in a world where the lookup returns
  one address leaves 6 clients, not 5.
\<close>

theorem Connect_one_address_pool_size:
  "LookupIP ok_world ''example.org'' = Inr [[192, 0, 2, 1]]
   \<and> fst (Connect ok_world fresh) = None
   \<and> length (clients (snd (Connect ok_world fresh))) = 6
   \<and> length (clients (snd (Connect ok_world fresh))) \<noteq> 5 * length [[192, 0, 2, 1 :: 8 word]]"
  using connected_eq by (simp add: Connect_ok connected_def) (simp add: ok_world_def)

section \<open>Round robin\<close>

text \<open>
  C6. Start with the cursor at 0 and a pool of \<open>K\<close> clients, and make \<open>P < K\<close> calls that
  all succeed and all leave a pool of \<open>K\<close> clients. Then the clients the calls hand their
  request to are those at the indices \<open>1, 2, \<dots>, P\<close>, in this order, so no index occurs
  twice; these are also the values of the cursor after each call. The cursor moves
  exactly once per call, at its start, whatever the outcome of the call: after any call
  it is the value the advance gave it.
\<close>

theorem round_robin:
  assumes "nextIndex p = 0" "length (clients p) = K" "length calls < K"
    "list_all (delivered_on K) (Writes san p calls)"
  shows "concat (map (\<lambda>r. acquired (snd (snd r))) (Writes san p calls))
           = map int [1..<Suc (length calls)]
       \<and> map (\<lambda>r. nextIndex (fst (snd r))) (Writes san p calls)
           = map int [1..<Suc (length calls)]
       \<and> distinct (concat (map (\<lambda>r. acquired (snd (snd r))) (Writes san p calls)))
       \<and> nextIndex (fst (snd (Write san w p' ms))) = nextIndex (acquire p')"
proof -
  have "nextIndex p + int (length calls) < int K" "0 \<le> nextIndex p"
    using assms(1,3) by simp_all
  from round_robin_from [OF assms(2) this(2) this(1) assms(4)]
  have a: "concat (map (\<lambda>r. acquired (snd (snd r))) (Writes san p calls))
           = map int [1..<Suc (length calls)]"
    and b: "map (\<lambda>r. nextIndex (fst (snd r))) (Writes san p calls)
           = map int [1..<Suc (length calls)]"
    by (simp_all add: assms(1))
  have "distinct (map int [1..<Suc (length calls)])"
    by (simp add: distinct_map del: upt_Suc)
  with a b show ?thesis by (simp add: Write_nextIndex del: upt_Suc)
qed

theorem round_robin_witness:
  "nextIndex connected = 0 \<and> length (clients connected) = 6
   \<and> length [(ok_world, []), (ok_world, []), (ok_world, [])] < (6::nat)
   \<and> list_all (delivered_on 6)
       (Writes Sanitize connected [(ok_world, []), (ok_world, []), (ok_world, [])])
   \<and> concat (map (\<lambda>r. acquired (snd (snd r)))
        (Writes Sanitize connected [(ok_world, []), (ok_world, []), (ok_world, [])]))
       = [1, 2, 3]
   \<and> map (\<lambda>r. nextIndex (fst (snd r)))
        (Writes Sanitize connected [(ok_world, []), (ok_world, []), (ok_world, [])])
       = [1, 2, 3]"
proof -
  have h1: "nextIndex connected = 0" and h2: "length (clients connected) = 6"
    by (simp_all add: connected_eq)
  have h3: "length [(ok_world, []::Metric list), (ok_world, []), (ok_world, [])] < (6::nat)"
    by simp
  have h4: "list_all (delivered_on 6)
       (Writes Sanitize connected [(ok_world, []), (ok_world, []), (ok_world, [])])"
    unfolding Writes_three by (simp add: delivered_on_def connected_eq)
  have u: "map int [1..<Suc (length [(ok_world, []::Metric list), (ok_world, []), (ok_world, [])])]
      = [1, 2, 3]"
    by (simp add: upt_conv_Cons)
  from round_robin [OF h1 h2 h3 h4, where w = ok_world and p' = connected and ms = "[]"]
    h1 h2 h4
  show ?thesis
    unfolding u by (simp del: Writes.simps)
qed

section \<open>A response outside the 2xx class\<close>

text \<open>
  C7. When the call receives a response whose status code is not between 200 and 299,
  \<^verbatim>\<open>Write\<close> returns the error that carries the status line and the status code; the
  shipper it leaves is the one after the advance of the cursor: same clients, same
  deadline; the only call made on the pool is the \<^verbatim>\<open>Do\<close> on the acquired client, and
  \<^verbatim>\<open>resolveDns\<close> is not called.
\<close>

theorem Write_rejected:
  assumes "send san w (acquire p) ms = Inr resp"
    and "\<not> (200 \<le> StatusCode resp \<and> StatusCode resp \<le> 299)"
  shows "fst (Write san w p ms) = Some (HTTPStatusError (Status resp) (StatusCode resp))
    \<and> fst (snd (Write san w p ms)) = acquire p
    \<and> clients (fst (snd (Write san w p ms))) = clients p
    \<and> nextIndex (fst (snd (Write san w p ms))) = nextIndex (acquire p)
    \<and> nextResolve (fst (snd (Write san w p ms))) = nextResolve p
    \<and> snd (snd (Write san w p ms)) = [ClientDo (nextIndex (acquire p))]
    \<and> ResolveDns \<notin> set (snd (snd (Write san w p ms)))"
proof -
  have "StatusCode resp sdiv 100 \<noteq> 2"
    using assms(2) by (simp add: status_2xx)
  with assms(1) have "Write san w p ms =
    (Some (HTTPStatusError (Status resp) (StatusCode resp)), acquire p,
     [ClientDo (nextIndex (acquire p))])"
    by (rule Write_rejected_eq)
  then show ?thesis by (simp add: acquire_fields)
qed

theorem Write_rejected_witness:
  "send Sanitize unavailable_world (acquire connected) []
     = Inr \<lparr>Status = ''503 Service Unavailable'', StatusCode = 503\<rparr>
   \<and> \<not> (200 \<le> (503::int) \<and> (503::int) \<le> 299)
   \<and> fst (Write Sanitize unavailable_world connected [])
       = Some (HTTPStatusError ''503 Service Unavailable'' 503)
   \<and> clients (fst (snd (Write Sanitize unavailable_world connected []))) = clients connected
   \<and> nextIndex (fst (snd (Write Sanitize unavailable_world connected []))) = 1
   \<and> nextResolve (fst (snd (Write Sanitize unavailable_world connected []))) = nextResolve connected
   \<and> snd (snd (Write Sanitize unavailable_world connected [])) = [ClientDo 1]"
proof -
  have n: "\<not> (200 \<le> StatusCode \<lparr>Status = ''503 Service Unavailable'', StatusCode = 503\<rparr>
      \<and> StatusCode \<lparr>Status = ''503 Service Unavailable'', StatusCode = 503\<rparr> \<le> 299)"
    by simp
  have i: "nextIndex (acquire connected) = 1"
    by (simp add: acquire_connected)
  from Write_rejected [OF send_unavailable n] show ?thesis
    using send_unavailable by (simp add: i acquire_fields)
qed

section \<open>The cursor when the pool is rebuilt\<close>

text \<open>
  C8, as the code has it. \<^verbatim>\<open>resolveDns\<close> does not assign \<^verbatim>\<open>nextIndex\<close>: whether it
  succeeds or fails, from \<^verbatim>\<open>Connect\<close> or from the refresh in \<^verbatim>\<open>Write\<close>, the cursor
  keeps its value, and after any call of \<^verbatim>\<open>Write\<close> the cursor is the one the advance at
  the start of the call set. (On a fresh instance it is 0 after \<^verbatim>\<open>Connect\<close> because it was
  0 before.)

  The claim that a rebuild resets the cursor to 0 fails on the first delivery after the
  deadline: the pool is rebuilt and the cursor stays at 1.
\<close>

theorem rebuild_keeps_cursor:
  "nextIndex (snd (resolveDns w p)) = nextIndex p
   \<and> nextIndex (snd (Connect w p)) = nextIndex p
   \<and> nextIndex (fst (snd (Write san w p ms))) = nextIndex (acquire p)"
  by (simp add: resolveDns_nextIndex Connect_def Write_nextIndex)

theorem rebuild_cursor_counterexample:
  "fst (Write Sanitize late_world connected []) = None
   \<and> snd (snd (Write Sanitize late_world connected [])) = [ClientDo 1, ResolveDns]
   \<and> nextIndex (fst (snd (Write Sanitize late_world connected []))) = 1
   \<and> nextIndex (fst (snd (Write Sanitize late_world connected []))) \<noteq> 0"
  by (simp add: Write_late)

section \<open>When the pool is refreshed\<close>

text \<open>
  C9, as the code has it. \<^verbatim>\<open>Write\<close> calls \<^verbatim>\<open>resolveDns\<close> exactly when the call received
  a response of the 2xx class and the deadline is not later than the instant of the test
  (\<^verbatim>\<open>nextResolve.Sub(now) <= 0\<close>). It then calls it once, after the \<^verbatim>\<open>Do\<close>, before
  it returns. If that resolution succeeds, the new deadline is the instant read in
  \<^verbatim>\<open>resolveDns\<close> plus 60 seconds plus \<^verbatim>\<open>rand.Intn(90)\<close> whole seconds; if it fails, the
  deadline is the old one.

  The claim that a new deadline is set whenever the refresh happens fails when the DNS
  lookup of the refresh fails: the call returns the lookup error and the deadline, already
  in the past, stays.
\<close>

theorem refresh_after_success:
  "(ResolveDns \<in> set (snd (snd (Write san w p ms)))
      \<longleftrightarrow> answered_2xx san w p ms \<and> nextResolve p \<le> Now_check w)
   \<and> (ResolveDns \<in> set (snd (snd (Write san w p ms))) \<longrightarrow>
        snd (snd (Write san w p ms)) = [ClientDo (nextIndex (acquire p)), ResolveDns]
        \<and> (0 \<le> Intn w 90 \<and> Intn w 90 < 90 \<longrightarrow>
             nextResolve (fst (snd (Write san w p ms)))
               = (if fst (Write san w p ms) = None
                  then Now_resolve w + 60000000000 + Intn w 90 * 1000000000
                  else nextResolve p)))"
proof -
  have "snd (snd (Write san w p ms)) = [ClientDo (nextIndex (acquire p)), ResolveDns]
        \<and> (0 \<le> Intn w 90 \<and> Intn w 90 < 90 \<longrightarrow>
             nextResolve (fst (snd (Write san w p ms)))
               = (if fst (Write san w p ms) = None
                  then Now_resolve w + 60000000000 + Intn w 90 * 1000000000
                  else nextResolve p))"
    if r: "ResolveDns \<in> set (snd (snd (Write san w p ms)))"
  proof -
    from r have a: "answered_2xx san w p ms" and d: "nextResolve p \<le> Now_check w"
      by (simp_all add: Write_ResolveDns_iff)
    note W = Write_refresh [OF a d]
    have "nextResolve (fst (snd (Write san w p ms)))
               = (if fst (Write san w p ms) = None
                  then Now_resolve w + 60000000000 + Intn w 90 * 1000000000
                  else nextResolve p)"
      if j: "0 \<le> Intn w 90 \<and> Intn w 90 < 90"
    proof (cases "fst (resolveDns w (acquire p))")
      case None
      then show ?thesis
        using resolveDns_deadline_ok [OF None] jitter_duration [of "Intn w 90"] j
        by (simp add: W Add_def)
    next
      case (Some e)
      then show ?thesis
        using resolveDns_deadline_error [OF Some] by (simp add: W acquire_fields)
    qed
    then show ?thesis by (simp add: W)
  qed
  then show ?thesis using Write_ResolveDns_iff [of san w p ms] by blast
qed

theorem refresh_after_success_witness:
  "answered_2xx Sanitize late_world connected []
   \<and> nextResolve connected \<le> Now_check late_world
   \<and> 0 \<le> Intn late_world 90 \<and> Intn late_world 90 < 90
   \<and> ResolveDns \<in> set (snd (snd (Write Sanitize late_world connected [])))
   \<and> snd (snd (Write Sanitize late_world connected [])) = [ClientDo 1, ResolveDns]
   \<and> fst (Write Sanitize late_world connected []) = None
   \<and> nextResolve (fst (snd (Write Sanitize late_world connected []))) = 167000000500"
proof -
  have d: "nextResolve connected \<le> Now_check late_world"
    by (simp add: connected_eq late_world_def)
  have j: "0 \<le> Intn late_world 90 \<and> Intn late_world 90 < 90"
    by (simp add: late_world_def ok_world_def)
  have n: "fst (Write Sanitize late_world connected []) = None"
    by (simp add: Write_late)
  have v: "Now_resolve late_world + 60000000000 + Intn late_world 90 * 1000000000 = 167000000500"
    by (simp add: late_world_def ok_world_def)
  have i: "nextIndex (acquire connected) = 1"
    by (simp add: acquire_connected)
  from refresh_after_success [of Sanitize late_world connected "[]"] answered_late(1) d j n
  show ?thesis by (simp add: v i)
qed

theorem refresh_deadline_counterexample:
  "send Sanitize dns_down_world (acquire connected) [] = Inr \<lparr>Status = ''200 OK'', StatusCode = 200\<rparr>
   \<and> nextResolve connected \<le> Now_check dns_down_world
   \<and> snd (snd (Write Sanitize dns_down_world connected [])) = [ClientDo 1, ResolveDns]
   \<and> fst (Write Sanitize dns_down_world connected []) = Some LookupError
   \<and> nextResolve (fst (snd (Write Sanitize dns_down_world connected []))) = nextResolve connected
   \<and> nextResolve (fst (snd (Write Sanitize dns_down_world connected [])))
       < Now_check dns_down_world + 60000000000"
proof -
  have c: "nextResolve connected = 67000002000"
    by (simp add: connected_eq)
  have n: "Now_check dns_down_world = 100000000000"
    by (simp add: dns_down_world_def late_world_def ok_world_def)
  show ?thesis
    by (simp add: send_late Write_dns_down c n)
qed


section \<open>A resolution that fails\<close>

text \<open>
  C10. \<^verbatim>\<open>resolveDns\<close> checks the TLS configuration first: if that fails, the shipper is
  unchanged. Otherwise it empties the pool before it parses the URL and looks the host
  up, so a malformed URL or a failed lookup leaves the shipper with an empty pool and
  everything else as before. The same holds for the resolution at the end of a call of
  \<^verbatim>\<open>Write\<close> that received a 2xx response after the deadline: the call returns the error
  of the resolution and leaves the pool as the resolution left it.
\<close>

theorem failed_resolution_empties_pool:
  "(TLSConfig w = Inl e \<longrightarrow> resolveDns w p = (Some e, p))
   \<and> (TLSConfig w = Inr t \<and> url_Parse w (URL p) = Inl e \<longrightarrow>
        resolveDns w p = (Some e, p\<lparr>clients := []\<rparr>))
   \<and> (TLSConfig w = Inr t \<and> url_Parse w (URL p) = Inr h \<and> LookupIP w h = Inl e \<longrightarrow>
        resolveDns w p = (Some e, p\<lparr>clients := []\<rparr>))
   \<and> (answered_2xx san w p ms \<and> nextResolve p \<le> Now_check w \<longrightarrow>
        (TLSConfig w = Inl e \<longrightarrow>
           Write san w p ms
             = (Some e, acquire p, [ClientDo (nextIndex (acquire p)), ResolveDns]))
        \<and> (TLSConfig w = Inr t
             \<and> (url_Parse w (URL p) = Inl e
                  \<or> url_Parse w (URL p) = Inr h \<and> LookupIP w h = Inl e) \<longrightarrow>
           Write san w p ms
             = (Some e, (acquire p)\<lparr>clients := []\<rparr>,
                [ClientDo (nextIndex (acquire p)), ResolveDns])))"
proof -
  have "Write san w p ms = (Some e, acquire p, [ClientDo (nextIndex (acquire p)), ResolveDns])"
    if "answered_2xx san w p ms" "nextResolve p \<le> Now_check w" "TLSConfig w = Inl e"
    using Write_refresh [OF that(1,2)] resolveDns_tls_error [OF that(3), of "acquire p"]
    by simp
  moreover have "Write san w p ms
             = (Some e, (acquire p)\<lparr>clients := []\<rparr>,
                [ClientDo (nextIndex (acquire p)), ResolveDns])"
    if "answered_2xx san w p ms" "nextResolve p \<le> Now_check w" "TLSConfig w = Inr t"
      "url_Parse w (URL p) = Inl e \<or> url_Parse w (URL p) = Inr h \<and> LookupIP w h = Inl e"
    using Write_refresh [OF that(1,2)] that(4)
      resolveDns_parse_error [OF that(3), of "acquire p" e]
      resolveDns_lookup_error [OF that(3), of "acquire p" h e]
    by (auto simp: acquire_fields)
  ultimately show ?thesis
    by (simp add: resolveDns_tls_error resolveDns_parse_error resolveDns_lookup_error)
qed

theorem failed_resolution_empties_pool_witness:
  "TLSConfig tls_down_world = Inl TLSConfigError
   \<and> resolveDns tls_down_world connected = (Some TLSConfigError, connected)
   \<and> Write Sanitize tls_down_world connected []
       = (Some TLSConfigError, acquire connected, [ClientDo 1, ResolveDns])
   \<and> TLSConfig bad_url_world = Inr ''tls''
   \<and> url_Parse bad_url_world (URL connected) = Inl URLParseError
   \<and> resolveDns bad_url_world connected = (Some URLParseError, connected\<lparr>clients := []\<rparr>)
   \<and> Write Sanitize bad_url_world connected []
       = (Some URLParseError, (acquire connected)\<lparr>clients := []\<rparr>, [ClientDo 1, ResolveDns])
   \<and> TLSConfig dns_down_world = Inr ''tls''
   \<and> url_Parse dns_down_world (URL connected) = Inr ''example.org''
   \<and> LookupIP dns_down_world ''example.org'' = Inl LookupError
   \<and> resolveDns dns_down_world connected = (Some LookupError, connected\<lparr>clients := []\<rparr>)
   \<and> Write Sanitize dns_down_world connected []
       = (Some LookupError, (acquire connected)\<lparr>clients := []\<rparr>, [ClientDo 1, ResolveDns])
   \<and> clients connected \<noteq> []"
proof -
  have t1: "TLSConfig tls_down_world = Inl TLSConfigError"
    by (simp add: tls_down_world_def)
  have t2: "TLSConfig bad_url_world = Inr ''tls''"
    "url_Parse bad_url_world (URL connected) = Inl URLParseError"
    by (simp_all add: bad_url_world_def late_world_def ok_world_def)
  have t3: "TLSConfig dns_down_world = Inr ''tls''"
    "url_Parse dns_down_world (URL connected) = Inr ''example.org''"
    "LookupIP dns_down_world ''example.org'' = Inl LookupError"
    by (simp_all add: dns_down_world_def late_world_def ok_world_def)
  have d: "nextResolve connected \<le> Now_check tls_down_world"
    "nextResolve connected \<le> Now_check bad_url_world"
    "nextResolve connected \<le> Now_check dns_down_world"
    by (simp_all add: connected_eq tls_down_world_def bad_url_world_def dns_down_world_def
        late_world_def ok_world_def)
  have i: "nextIndex (acquire connected) = 1"
    by (simp add: acquire_connected)
  have c: "clients connected \<noteq> []"
    by (simp add: connected_eq)
  from failed_resolution_empties_pool [of tls_down_world TLSConfigError connected _ _ Sanitize "[]"]
    failed_resolution_empties_pool [of bad_url_world URLParseError connected "''tls''" _ Sanitize "[]"]
    failed_resolution_empties_pool [of dns_down_world LookupError connected "''tls''"
      "''example.org''" Sanitize "[]"]
    t1 t2 t3 d answered_late c
  show ?thesis by (simp add: i)
qed

end
